theory Spec2Isabelle
  imports Complex_Main
begin

section \<open>Python exceptions\<close>

text \<open>
  The exceptions that the modelled functions raise or let through. A raise is the
  \<open>Inl\<close> branch of a sum. \<open>OtherError\<close> stands for any exception class that the
  code does not name, tagged by its message.
\<close>

datatype exn =
    AlreadyRunningError
  | InvalidTestcaseError
  | ValueError
  | TypeError
  | OverflowError
  | GcsError
  | OtherError string

section \<open>The lease coordinator (\<open>commands.run_command\<close>)\<close>

text \<open>
  \<^verbatim>\<open>bot/tasks/commands.py\<close> and the datastore helper it calls are not among the
  sources; only \<^verbatim>\<open>tests/core/bot/tasks/commands_test.py\<close> is. The definitions of this
  section follow section 4.1 of the specification step by step, and the test file where
  it fixes what the specification leaves open.
\<close>

datatype task_state = STARTED | FINISHED | ERROR

text \<open>The persisted spelling of a status, as \<open>to_dict()\<close> shows it in the tests.\<close>

fun status_name :: "task_state \<Rightarrow> string" where
  "status_name STARTED = ''started''"
| "status_name FINISHED = ''finished''"
| "status_name ERROR = ''errored out''"

text \<open>A \<open>TaskStatus\<close> entity; \<open>time\<close> is in seconds.\<close>

record task_status =
  bot_name :: string
  status :: task_state
  time :: int

text \<open>The configuration read from the environment: \<open>BOT_NAME\<close> and \<open>TASK_LEASE_SECONDS\<close>.\<close>

record config =
  BOT_NAME :: string
  TASK_LEASE_SECONDS :: int

text \<open>
  What a task handler (\<open>execute_task(task_argument, job_name)\<close>) does, as far as the
  coordinator can see: it returns or raises, after some seconds have passed.
\<close>

datatype handler_result = Returned | Raised exn

type_synonym handler = "string \<Rightarrow> string \<Rightarrow> handler_result \<times> nat"

text \<open>
  The world of one worker: the datastore of \<open>TaskStatus\<close> entities by key, the clock
  (\<open>utils.utcnow()\<close>), and the log of handler invocations (task kind, argument, job),
  latest first.
\<close>

record world =
  store :: "string \<rightharpoonup> task_status"
  utcnow :: int
  calls :: "(string \<times> string \<times> string) list"

text \<open>
  Modelled from the spec: the composite key of \<open>commands.run_command\<close> (missing from the
  sources), "keyed by the composite string \<open>{task_kind} {task_argument} {job_name}\<close>";
  the test expects the key \<open>progression 123 job\<close>.
\<close>

definition task_state_name :: "string \<Rightarrow> string \<Rightarrow> string \<Rightarrow> string" where
  "task_state_name task_name task_argument job_name =
     task_name @ '' '' @ task_argument @ '' '' @ job_name"

text \<open>
  Modelled from the spec: the active-lease test of step 3 (missing from the sources),
  "a record exists with \<open>status == started\<close> and \<open>now < acquired_at + lease_duration\<close>".
\<close>

definition lease_active :: "config \<Rightarrow> int \<Rightarrow> task_status \<Rightarrow> bool" where
  "lease_active cfg t r \<longleftrightarrow> status r = STARTED \<and> t < time r + TASK_LEASE_SECONDS cfg"

text \<open>
  Modelled from the spec: step 2 (missing from the sources), "read existing record for
  \<open>key\<close>, if any", with the test of step 3 on it.
\<close>

definition lease_held :: "config \<Rightarrow> string \<Rightarrow> world \<Rightarrow> bool" where
  "lease_held cfg k w =
     (case store w k of
        None \<Rightarrow> False
      | Some r \<Rightarrow> lease_active cfg (utcnow w) r)"

text \<open>
  Modelled from the spec: the acquire transaction, steps 2 to 4 (missing from the
  sources). It aborts with \<open>AlreadyRunningError\<close> and writes nothing when the lease is
  active, and otherwise writes holder, \<open>started\<close> and the current time.
\<close>

definition acquire :: "config \<Rightarrow> string \<Rightarrow> world \<Rightarrow> exn + world" where
  "acquire cfg k w =
     (if lease_held cfg k w then Inl AlreadyRunningError
      else Inr (w\<lparr>store := (store w)(k \<mapsto>
             \<lparr>bot_name = BOT_NAME cfg, status = STARTED, time = utcnow w\<rparr>)\<rparr>))"

text \<open>
  Modelled from the spec: the finalize transaction, steps 6 and 8 (missing from the
  sources): "overwrite the record with \<open>status = finished\<close>, \<open>acquired_at = now\<close> (time of
  completion), \<open>holder\<close> unchanged". A record that is absent is created for the current
  worker.
\<close>

definition finalize :: "config \<Rightarrow> string \<Rightarrow> task_state \<Rightarrow> world \<Rightarrow> world" where
  "finalize cfg k s w =
     (case store w k of
        Some r \<Rightarrow> w\<lparr>store := (store w)(k \<mapsto> r\<lparr>status := s, time := utcnow w\<rparr>)\<rparr>
      | None \<Rightarrow> w\<lparr>store := (store w)(k \<mapsto>
                 \<lparr>bot_name = BOT_NAME cfg, status = s, time = utcnow w\<rparr>)\<rparr>)"

text \<open>
  Step 5: the handler of the task kind is called with the argument and the job name;
  the call is logged and the clock moves on by the time the handler took.
\<close>

definition invoke ::
  "(string \<Rightarrow> handler) \<Rightarrow> string \<Rightarrow> string \<Rightarrow> string \<Rightarrow> world \<Rightarrow> handler_result \<times> world" where
  "invoke handlers task_name task_argument job_name w =
     (case handlers task_name task_argument job_name of
        (res, elapsed) \<Rightarrow>
          (res, w\<lparr>utcnow := utcnow w + int elapsed,
                  calls := (task_name, task_argument, job_name) # calls w\<rparr>))"

text \<open>
  Modelled from the spec: which task kinds have their status recorded (missing from the
  sources). The specification names no exception; \<open>test_run_command_fuzz\<close> asserts that
  \<open>run_command('fuzz', 'fuzzer', 'job')\<close> calls the handler once and leaves no
  \<open>TaskStatus\<close> entity ("Fuzz task should not create any TaskStatus entities"), so the
  kind \<open>fuzz\<close> is exempt.
\<close>

definition should_update_task_status :: "string \<Rightarrow> bool" where
  "should_update_task_status task_name \<longleftrightarrow> task_name \<noteq> ''fuzz''"

text \<open>
  Modelled from the spec: \<open>commands.run_command\<close> (missing from the sources), steps 1 to
  8 of section 4.1. A recoverable domain error (\<open>InvalidTestcaseError\<close>) ends like a
  normal return; any other exception is recorded as errored and raised again. For an
  exempt task kind the handler runs with no status handling at all.
\<close>

definition run_command ::
  "config \<Rightarrow> (string \<Rightarrow> handler) \<Rightarrow> string \<Rightarrow> string \<Rightarrow> string \<Rightarrow> world \<Rightarrow> (exn + unit) \<times> world" where
  "run_command cfg handlers task_name task_argument job_name w =
     (let k = task_state_name task_name task_argument job_name in
      if should_update_task_status task_name then
        (case acquire cfg k w of
           Inl e \<Rightarrow> (Inl e, w)
         | Inr w1 \<Rightarrow>
             (case invoke handlers task_name task_argument job_name w1 of
                (Returned, w2) \<Rightarrow> (Inr (), finalize cfg k FINISHED w2)
              | (Raised e, w2) \<Rightarrow>
                  if e = InvalidTestcaseError then (Inr (), finalize cfg k FINISHED w2)
                  else (Inl e, finalize cfg k ERROR w2)))
      else
        (case invoke handlers task_name task_argument job_name w of
           (Returned, w2) \<Rightarrow> (Inr (), w2)
         | (Raised e, w2) \<Rightarrow>
             if e = InvalidTestcaseError then (Inr (), w2) else (Inl e, w2)))"



text \<open>The fixtures of \<open>RunCommandTest\<close>: the configuration of \<open>setUp\<close>, the mocked
  handlers, an empty datastore at \<open>CURRENT_TIME\<close>, and the entity another bot has put.\<close>

definition test_config :: config where
  "test_config = \<lparr>BOT_NAME = ''bot_name'', TASK_LEASE_SECONDS = 60\<rparr>"

text \<open>
  \<open>test_utils.CURRENT_TIME\<close> is not among the sources; the tests only need it to be
  more than one lease later than 1970-01-01, which is time 0 here.
\<close>

definition CURRENT_TIME :: int where
  "CURRENT_TIME = 1000000"

definition mock_handlers :: "handler_result \<Rightarrow> string \<Rightarrow> handler" where
  "mock_handlers res = (\<lambda>task_name task_argument job_name. (res, 0))"

definition empty_world :: world where
  "empty_world = \<lparr>store = Map.empty, utcnow = CURRENT_TIME, calls = []\<rparr>"

definition another_bot :: "int \<Rightarrow> task_status" where
  "another_bot t = \<lparr>bot_name = ''another_bot'', status = STARTED, time = t\<rparr>"

definition put :: "string \<Rightarrow> task_status \<Rightarrow> world \<Rightarrow> world" where
  "put k r w = w\<lparr>store := (store w)(k \<mapsto> r)\<rparr>"

definition leased_world :: "string \<Rightarrow> int \<Rightarrow> world" where
  "leased_world k t = put k (another_bot t) empty_world"

section \<open>The engine registry and the rollout policy (\<open>bot/fuzzers/engine.py\<close>)\<close>

text \<open>
  The Python values that reach these functions: \<open>None\<close>, booleans, integers, strings,
  class objects (by name) and their instances (class name and object identity).
\<close>

datatype pyval =
    PyNone
  | PyBool bool
  | PyInt int
  | PyStr string
  | PyClass string
  | PyInstance string nat

text \<open>Python's truth value: what \<open>if x:\<close> tests.\<close>

fun truthy :: "pyval \<Rightarrow> bool" where
  "truthy PyNone = False"
| "truthy (PyBool b) = b"
| "truthy (PyInt i) = (i \<noteq> 0)"
| "truthy (PyStr s) = (s \<noteq> [])"
| "truthy (PyClass c) = True"
| "truthy (PyInstance c i) = True"

text \<open>
  The interpreter state these functions touch: the module-level dictionary \<open>_ENGINES\<close>
  and the allocator of object identities (objects \<open>0 ..< next_object\<close> exist).
\<close>

record interp =
  ENGINES :: "string \<rightharpoonup> pyval"
  next_object :: nat

text \<open>\<open>register(name, engine_class)\<close>: \<open>ValueError\<close> when the name is a key already.\<close>

definition register :: "string \<Rightarrow> pyval \<Rightarrow> interp \<Rightarrow> exn + interp" where
  "register name engine_class st =
     (if ENGINES st name \<noteq> None then Inl ValueError
      else Inr (st\<lparr>ENGINES := (ENGINES st)(name \<mapsto> engine_class)\<rparr>))"

text \<open>\<open>d.get(k)\<close>: \<open>None\<close> for a missing key.\<close>

definition dict_get :: "(string \<rightharpoonup> pyval) \<Rightarrow> string \<Rightarrow> pyval" where
  "dict_get d k = (case d k of None \<Rightarrow> PyNone | Some v \<Rightarrow> v)"

text \<open>
  \<open>engine_class()\<close>: calling a class allocates a new object (engine classes are
  constructed without arguments); calling a value that is not callable raises
  \<open>TypeError\<close>.
\<close>

definition call :: "pyval \<Rightarrow> interp \<Rightarrow> (exn + pyval) \<times> interp" where
  "call f st =
     (case f of
        PyClass c \<Rightarrow>
          (Inr (PyInstance c (next_object st)), st\<lparr>next_object := Suc (next_object st)\<rparr>)
      | _ \<Rightarrow> (Inl TypeError, st))"

definition get :: "string \<Rightarrow> interp \<Rightarrow> (exn + pyval) \<times> interp" where
  "get name st =
     (let engine_class = dict_get (ENGINES st) name in
      if truthy engine_class then call engine_class st
      else (Inr PyNone, st))"

text \<open>
  The literals \<open>0.2\<close> and \<open>0.05\<close> are IEEE doubles: the doubles nearest to one fifth
  (\<open>0x3FC999999999999A\<close>) and to one twentieth (\<open>0x3FA999999999999A\<close>), written here
  as the exact rationals they denote.
\<close>

definition TRIAL_PROBABILITY_FUZZ :: rat where
  "TRIAL_PROBABILITY_FUZZ = 7205759403792794 / 2 ^ 55"

definition TRIAL_PROBABILITY_OTHERS :: rat where
  "TRIAL_PROBABILITY_OTHERS = 7205759403792794 / 2 ^ 57"

text \<open>
  \<open>random.SystemRandom().random()\<close> is a 53-bit integer from the operating system's
  entropy source times \<open>2 ^ -53\<close>. The integer drawn is an input of the model.
\<close>

definition random :: "nat \<Rightarrow> rat" where
  "random draw = of_nat draw / 2 ^ 53"

text \<open>
  \<open>do_trial()\<close>. \<open>environment.get_value\<close> is not among the sources: the function
  that gives the value of a setting (\<open>None\<close> when it is unset) is a parameter.
  \<open>use_new_impl is False\<close> holds for the boolean \<open>False\<close> only.
\<close>

definition do_trial :: "(string \<Rightarrow> pyval) \<Rightarrow> nat \<Rightarrow> bool" where
  "do_trial get_value draw =
     (let use_new_impl = get_value ''USE_NEW_ENGINE_IMPL'' in
      if truthy use_new_impl then True
      else if use_new_impl = PyBool False then False
      else
        (let probability =
           (if get_value ''TASK_NAME'' = PyStr ''fuzz'' then TRIAL_PROBABILITY_FUZZ
            else TRIAL_PROBABILITY_OTHERS)
         in random draw < probability))"

text \<open>Settings for concrete runs: every setting unset but the ones listed.\<close>

definition settings :: "(string \<times> pyval) list \<Rightarrow> string \<Rightarrow> pyval" where
  "settings kvs name = (case map_of kvs name of None \<Rightarrow> PyNone | Some v \<Rightarrow> v)"

definition fresh_interp :: interp where
  "fresh_interp = \<lparr>ENGINES = Map.empty, next_object = 0\<rparr>"

text \<open>A registry in which \<open>libFuzzer\<close> has been registered.\<close>

definition libfuzzer_registered :: interp where
  "libfuzzer_registered = \<lparr>ENGINES = [''libFuzzer'' \<mapsto> PyClass ''LibFuzzerEngine''], next_object = 0\<rparr>"

section \<open>Signed uploads (\<open>appengine/libs/gcs.py\<close>)\<close>

definition STORAGE_URL :: "string \<Rightarrow> string" where
  "STORAGE_URL bucket_name = ''https://storage.googleapis.com/'' @ bucket_name"

definition DEFAULT_URL_VALID_SECONDS :: int where
  "DEFAULT_URL_VALID_SECONDS = 30 * 60"

definition MAX_UPLOAD_SIZE :: int where
  "MAX_UPLOAD_SIZE = 15 * 1024 * 1024 * 1024"

record GcsUpload =
  url :: pyval
  bucket :: string
  key :: string
  google_access_id :: string
  policy :: string
  signature :: string

text \<open>The JSON document handed to \<open>json.dumps\<close>.\<close>

datatype json =
    JString string
  | JInt int
  | JArray "json list"
  | JObject "(string \<times> json) list"

text \<open>
  The library functions and services that \<open>gcs.py\<close> calls and that are not part of
  the repository's sources are parameters. Each call that can raise gives a result or
  an exception: \<open>base64.b64encode\<close> and \<open>base64.b64decode\<close>, \<open>json.dumps\<close>,
  \<open>utils.service_account_email()\<close>, \<open>googleapiclient.discovery.build\<close>, and the
  \<open>signBlob\<close> call of the IAM credentials service, which answers with a dictionary.
  \<open>datetime.isoformat\<close> renders every \<open>datetime\<close>.
\<close>

record library =
  b64encode :: "string \<Rightarrow> exn + string"
  b64decode :: "string \<Rightarrow> exn + string"
  json_dumps :: "json \<Rightarrow> exn + string"
  isoformat :: "int \<Rightarrow> string"
  service_account_email :: "exn + string"
  discovery_build :: "exn + unit"
  signBlob :: "string \<Rightarrow> string \<Rightarrow> exn + (string \<rightharpoonup> string)"

text \<open>
  Python's \<open>datetime\<close>, in microseconds since 0001-01-01T00:00:00: a \<open>datetime\<close>
  lies between year 1 and year 9999 (3652059 days), a \<open>timedelta\<close> has at most
  999999999 days, and arithmetic that leaves either range raises \<open>OverflowError\<close>.
\<close>

definition DATETIME_END :: int where
  "DATETIME_END = 3652059 * 86400 * 1000000"

definition timedelta :: "int \<Rightarrow> exn + int" where
  "timedelta seconds =
     (if \<bar>seconds div 86400\<bar> \<le> 999999999 then Inr (seconds * 1000000)
      else Inl OverflowError)"

definition datetime_add :: "int \<Rightarrow> int \<Rightarrow> exn + int" where
  "datetime_add d delta =
     (if 0 \<le> d + delta \<and> d + delta < DATETIME_END then Inr (d + delta)
      else Inl OverflowError)"

text \<open>
  \<open>sign_data(data)\<close>: what building the client, reading the service account,
  encoding the payload or the remote call raises goes through; a response that has no
  \<open>signedBlob\<close> or one that does not decode raises \<open>GcsError\<close>.
\<close>

definition sign_data :: "library \<Rightarrow> string \<Rightarrow> exn + string" where
  "sign_data lib data =
     (case discovery_build lib of
        Inl e \<Rightarrow> Inl e
      | Inr iam \<Rightarrow>
     (case service_account_email lib of
        Inl e \<Rightarrow> Inl e
      | Inr email \<Rightarrow>
     (case b64encode lib data of
        Inl e \<Rightarrow> Inl e
      | Inr payload \<Rightarrow>
     (case signBlob lib (''projects/-/serviceAccounts/'' @ email) payload of
        Inl e \<Rightarrow> Inl e
      | Inr response \<Rightarrow>
          (case response ''signedBlob'' of
             None \<Rightarrow> Inl GcsError
           | Some blob \<Rightarrow>
               (case b64decode lib blob of
                  Inl e \<Rightarrow> Inl GcsError
                | Inr signed \<Rightarrow> Inr signed))))))"

text \<open>The policy document of \<open>prepare_upload\<close> for an expiration time.\<close>

definition policy_document :: "library \<Rightarrow> int \<Rightarrow> string \<Rightarrow> string \<Rightarrow> json" where
  "policy_document lib expiration_time bucket_name path =
     JObject
       [(''expiration'', JString (isoformat lib expiration_time @ ''Z'')),
        (''conditions'',
           JArray
             [JObject [(''key'', JString path)],
              JObject [(''bucket'', JString bucket_name)],
              JArray [JString ''content-length-range'', JInt 0, JInt MAX_UPLOAD_SIZE],
              JArray [JString ''starts-with'', JString ''$x-goog-meta-filename'',
                      JString []]])]"

text \<open>
  \<open>prepare_upload(bucket_name, path, expiry)\<close>, at the time \<open>now\<close> that
  \<open>datetime.utcnow()\<close> reads. Every step that can raise ends the call with its
  exception, in the order of the source: the expiration time, \<open>json.dumps\<close>,
  \<open>base64.b64encode\<close>, and without a local server \<open>sign_data\<close>, the encoding of the
  signature and the service account.
\<close>

definition prepare_upload ::
  "library \<Rightarrow> (string \<Rightarrow> pyval) \<Rightarrow> int \<Rightarrow> string \<Rightarrow> string \<Rightarrow> int \<Rightarrow> exn + GcsUpload" where
  "prepare_upload lib get_value now bucket_name path expiry =
     (case timedelta expiry of
        Inl e \<Rightarrow> Inl e
      | Inr delta \<Rightarrow>
     (case datetime_add now delta of
        Inl e \<Rightarrow> Inl e
      | Inr expiration_time \<Rightarrow>
     (case json_dumps lib (policy_document lib expiration_time bucket_name path) of
        Inl e \<Rightarrow> Inl e
      | Inr document \<Rightarrow>
     (case b64encode lib document of
        Inl e \<Rightarrow> Inl e
      | Inr encoded_policy \<Rightarrow>
          (let local_server = get_value ''LOCAL_GCS_SERVER_HOST'' in
           if truthy local_server then
             Inr \<lparr>url = local_server, bucket = bucket_name, key = path,
                  google_access_id = ''service_account'', policy = encoded_policy,
                  signature = ''SIGNATURE''\<rparr>
           else
             (case sign_data lib encoded_policy of
                Inl e \<Rightarrow> Inl e
              | Inr signed \<Rightarrow>
             (case b64encode lib signed of
                Inl e \<Rightarrow> Inl e
              | Inr encoded_signature \<Rightarrow>
             (case service_account_email lib of
                Inl e \<Rightarrow> Inl e
              | Inr service_account_name \<Rightarrow>
                  Inr \<lparr>url = PyStr (STORAGE_URL bucket_name), bucket = bucket_name,
                       key = path, google_access_id = service_account_name,
                       policy = encoded_policy, signature = encoded_signature\<rparr>))))))))"

text \<open>
  A stand-in library for runs on concrete inputs, with the behaviour of Python 2, which
  the sources are written for: \<open>json.dumps\<close> renders the document with its default
  separators and refuses text that is not ASCII, and \<open>b64encode\<close> takes the \<open>str\<close>
  that \<open>json.dumps\<close> returns. The base64 alphabet is stood in for by a tag in front
  of the text, \<open>isoformat\<close> by the decimal count of microseconds, and the signing
  service answers with a fixed blob.
\<close>

fun digits :: "nat \<Rightarrow> string" where
  "digits n =
     (if n < 10 then [''0123456789'' ! n]
      else digits (n div 10) @ [''0123456789'' ! (n mod 10)])"

declare digits.simps [simp del]

definition quoted :: "string \<Rightarrow> string" where
  "quoted s =
     CHR 0x22 #
     concat (map (\<lambda>c. if c = CHR 0x22 \<or> c = CHR 0x5C then [CHR 0x5C, c] else [c]) s) @
     [CHR 0x22]"

fun render :: "json \<Rightarrow> string"
  and render_items :: "json list \<Rightarrow> string"
  and render_members :: "(string \<times> json) list \<Rightarrow> string" where
  "render (JString s) = quoted s"
| "render (JInt i) = (if i < 0 then ''-'' @ digits (nat (- i)) else digits (nat i))"
| "render (JArray xs) = ''['' @ render_items xs @ '']''"
| "render (JObject kvs) = ''{'' @ render_members kvs @ ''}''"
| "render_items [] = []"
| "render_items [x] = render x"
| "render_items (x # y # xs) = render x @ '', '' @ render_items (y # xs)"
| "render_members [] = []"
| "render_members [(k, v)] = quoted k @ '': '' @ render v"
| "render_members ((k, v) # kv # kvs) =
     quoted k @ '': '' @ render v @ '', '' @ render_members (kv # kvs)"

definition ascii :: "string \<Rightarrow> bool" where
  "ascii s \<longleftrightarrow> list_all (\<lambda>c. (of_char c :: nat) < 128) s"

definition stub_library :: library where
  "stub_library =
     \<lparr>b64encode = (\<lambda>s. Inr (''b64:'' @ s)),
      b64decode = (\<lambda>s. if take 4 s = ''b64:'' then Inr (drop 4 s) else Inl TypeError),
      json_dumps = (\<lambda>j. if ascii (render j) then Inr (render j)
                         else Inl (OtherError ''UnicodeDecodeError'')),
      isoformat = (\<lambda>t. digits (nat t)),
      service_account_email = Inr ''bot@example.com'',
      discovery_build = Inr (),
      signBlob = (\<lambda>name payload. Inr [''signedBlob'' \<mapsto> ''b64:sig''])\<rparr>"

text \<open>
  A local storage server, no local storage server, and a time of call in microseconds
  (2019-09-01).
\<close>

definition local_settings :: "string \<Rightarrow> pyval" where
  "local_settings = settings [(''LOCAL_GCS_SERVER_HOST'', PyStr ''http://localhost:9008'')]"

definition cloud_settings :: "string \<Rightarrow> pyval" where
  "cloud_settings = settings []"

definition SEPTEMBER_2019 :: int where
  "SEPTEMBER_2019 = 63702892800 * 1000000"

section \<open>The lease coordinator: what a call does\<close>


lemma run_command_held:
  assumes "task_name \<noteq> ''fuzz''"
      and "lease_held cfg (task_state_name task_name task_argument job_name) w"
  shows "run_command cfg handlers task_name task_argument job_name w =
           (Inl AlreadyRunningError, w)"
  using assms by (simp add: run_command_def should_update_task_status_def acquire_def)

lemma run_command_free:
  assumes "task_name \<noteq> ''fuzz''"
      and "\<not> lease_held cfg (task_state_name task_name task_argument job_name) w"
      and "handlers task_name task_argument job_name = (res, elapsed)"
  shows "run_command cfg handlers task_name task_argument job_name w =
     ((case res of Returned \<Rightarrow> Inr ()
        | Raised e \<Rightarrow> if e = InvalidTestcaseError then Inr () else Inl e),
      \<lparr>store = (store w)(task_state_name task_name task_argument job_name \<mapsto>
          \<lparr>bot_name = BOT_NAME cfg,
           status = (case res of Returned \<Rightarrow> FINISHED
             | Raised e \<Rightarrow> if e = InvalidTestcaseError then FINISHED else ERROR),
           time = utcnow w + int elapsed\<rparr>),
       utcnow = utcnow w + int elapsed,
       calls = (task_name, task_argument, job_name) # calls w\<rparr>)"
  using assms
  by (auto simp: run_command_def should_update_task_status_def acquire_def invoke_def
      finalize_def Let_def split: handler_result.splits)

lemma run_command_exempt:
  assumes "handlers ''fuzz'' task_argument job_name = (res, elapsed)"
  shows "run_command cfg handlers ''fuzz'' task_argument job_name w =
     ((case res of Returned \<Rightarrow> Inr ()
        | Raised e \<Rightarrow> if e = InvalidTestcaseError then Inr () else Inl e),
      w\<lparr>utcnow := utcnow w + int elapsed,
        calls := (''fuzz'', task_argument, job_name) # calls w\<rparr>)"
  using assms
  by (auto simp: run_command_def should_update_task_status_def invoke_def Let_def
      split: handler_result.splits)

text \<open>The definitions of the test fixtures, for runs on concrete inputs.\<close>

lemmas fixtures =
  test_config_def CURRENT_TIME_def mock_handlers_def empty_world_def another_bot_def
  put_def leased_world_def task_state_name_def

subsection \<open>No record is ever kept under the key of a \<open>fuzz\<close> task\<close>






subsection \<open>An active lease\<close>



subsection \<open>An expired lease\<close>




subsection \<open>The record a call leaves\<close>

text \<open>
  C3, as the code has it: for a task kind other than \<open>fuzz\<close>, when the handler completes
  normally and \<open>run_command\<close> returns, the store is the old one with the record under
  the key \<open>task_kind task_argument job_name\<close> set to holder \<open>BOT_NAME\<close>, status
  finished (persisted as \<open>finished\<close>) and the current time; no other key is added, so
  from an empty store exactly one record is left.
\<close>

theorem run_command_finished_record:
  assumes "task_name \<noteq> ''fuzz''"
      and "handlers task_name task_argument job_name = (Returned, elapsed)"
      and "run_command cfg handlers task_name task_argument job_name w = (Inr (), w')"
  shows "store w' = (store w)(task_name @ '' '' @ task_argument @ '' '' @ job_name \<mapsto>
           \<lparr>bot_name = BOT_NAME cfg, status = FINISHED, time = utcnow w'\<rparr>)
         \<and> status_name FINISHED = ''finished''
         \<and> dom (store w') = insert (task_name @ '' '' @ task_argument @ '' '' @ job_name)
             (dom (store w))"
proof (cases "lease_held cfg (task_state_name task_name task_argument job_name) w")
  case True
  then show ?thesis
    using run_command_held [OF assms(1) True, of handlers] assms(3) by simp
next
  case False
  then show ?thesis
    using run_command_free [where handlers = handlers, OF assms(1) False assms(2)] assms(3)
    by (auto simp: task_state_name_def)
qed

theorem run_command_finished_record_witness:
  "''progression'' \<noteq> ''fuzz''
   \<and> mock_handlers Returned ''progression'' ''123'' ''job'' = (Returned, 0)
   \<and> run_command test_config (mock_handlers Returned) ''progression'' ''123'' ''job'' empty_world
      = (Inr (),
         \<lparr>store = [''progression 123 job'' \<mapsto>
             \<lparr>bot_name = ''bot_name'', status = FINISHED, time = CURRENT_TIME\<rparr>],
          utcnow = CURRENT_TIME,
          calls = [(''progression'', ''123'', ''job'')]\<rparr>)
   \<and> dom [''progression 123 job'' \<mapsto>
             \<lparr>bot_name = ''bot_name'', status = FINISHED, time = CURRENT_TIME\<rparr>]
      = {''progression 123 job''}"
proof -
  have run: "run_command test_config (mock_handlers Returned) ''progression'' ''123'' ''job''
      empty_world
      = (Inr (),
         \<lparr>store = [''progression 123 job'' \<mapsto>
             \<lparr>bot_name = ''bot_name'', status = FINISHED, time = CURRENT_TIME\<rparr>],
          utcnow = CURRENT_TIME,
          calls = [(''progression'', ''123'', ''job'')]\<rparr>)"
    by (simp add: run_command_free [where res = Returned and elapsed = 0] lease_held_def
        fixtures)
  show ?thesis
    using run run_command_finished_record
      [of "''progression''" "mock_handlers Returned" "''123''" "''job''" 0 test_config
          empty_world, OF _ _ run]
    by (simp add: fixtures)
qed

text \<open>
  \<open>test_run_command_fuzz\<close>: the handler of \<open>fuzz\<close> completes normally and no record
  is left.
\<close>

theorem run_command_fuzz_no_record_counterexample:
  "mock_handlers Returned ''fuzz'' ''fuzzer'' ''job'' = (Returned, 0)
   \<and> run_command test_config (mock_handlers Returned) ''fuzz'' ''fuzzer'' ''job'' empty_world
      = (Inr (),
         \<lparr>store = Map.empty, utcnow = CURRENT_TIME, calls = [(''fuzz'', ''fuzzer'', ''job'')]\<rparr>)"
  by (simp add: run_command_exempt [where res = Returned and elapsed = 0] fixtures)

text \<open>
  C4, as the code has it: for every task kind other than \<open>fuzz\<close>, a call that returns
  normally has acquired the lease record (holder, started, time of the call) under the
  composite key before the handler was invoked, and ends with a record of terminal
  status finished under that key; for the task kind \<open>fuzz\<close> the handler is invoked and
  the store is left as it was.
\<close>

theorem run_command_lease_then_handler:
  "(task_name \<noteq> ''fuzz'' \<longrightarrow>
      fst (run_command cfg handlers task_name task_argument job_name w) = Inr () \<longrightarrow>
      (\<exists>w1 res w2 r.
          acquire cfg (task_name @ '' '' @ task_argument @ '' '' @ job_name) w = Inr w1
        \<and> store w1 (task_name @ '' '' @ task_argument @ '' '' @ job_name)
            = Some \<lparr>bot_name = BOT_NAME cfg, status = STARTED, time = utcnow w\<rparr>
        \<and> invoke handlers task_name task_argument job_name w1 = (res, w2)
        \<and> calls w2 = (task_name, task_argument, job_name) # calls w
        \<and> snd (run_command cfg handlers task_name task_argument job_name w)
            = finalize cfg (task_name @ '' '' @ task_argument @ '' '' @ job_name) FINISHED w2
        \<and> store (snd (run_command cfg handlers task_name task_argument job_name w))
             (task_name @ '' '' @ task_argument @ '' '' @ job_name) = Some r
        \<and> status r = FINISHED))
   \<and> (task_name = ''fuzz'' \<longrightarrow>
        store (snd (run_command cfg handlers task_name task_argument job_name w)) = store w
      \<and> calls (snd (run_command cfg handlers task_name task_argument job_name w))
          = (task_name, task_argument, job_name) # calls w)"
  by (cases "handlers task_name task_argument job_name")
     (auto simp: run_command_def should_update_task_status_def acquire_def invoke_def
       finalize_def task_state_name_def Let_def split: handler_result.splits)

theorem run_command_lease_then_handler_witness:
  "''regression'' \<noteq> ''fuzz''
   \<and> fst (run_command test_config (mock_handlers Returned) ''regression'' ''7'' ''job''
        empty_world) = Inr ()
   \<and> (\<exists>r. store (snd (run_command test_config (mock_handlers Returned) ''regression'' ''7''
          ''job'' empty_world)) (''regression'' @ '' '' @ ''7'' @ '' '' @ ''job'') = Some r
        \<and> status r = FINISHED)
   \<and> store (snd (run_command test_config (mock_handlers Returned) ''fuzz'' ''7''
          ''job'' empty_world)) = store empty_world"
proof -
  have ok: "fst (run_command test_config (mock_handlers Returned) ''regression'' ''7'' ''job''
        empty_world) = Inr ()"
    by (simp add: run_command_free [where res = Returned and elapsed = 0] lease_held_def
        fixtures)
  have ne: "''regression'' \<noteq> ''fuzz''" by simp
  from run_command_lease_then_handler
    [of "''regression''" test_config "mock_handlers Returned" "''7''" "''job''" empty_world]
    ne ok
  have "\<exists>r. store (snd (run_command test_config (mock_handlers Returned) ''regression'' ''7''
          ''job'' empty_world)) (''regression'' @ '' '' @ ''7'' @ '' '' @ ''job'') = Some r
        \<and> status r = FINISHED"
    by blast
  moreover from run_command_lease_then_handler
    [of "''fuzz''" test_config "mock_handlers Returned" "''7''" "''job''" empty_world]
  have "store (snd (run_command test_config (mock_handlers Returned) ''fuzz'' ''7''
          ''job'' empty_world)) = store empty_world"
    by blast
  ultimately show ?thesis using ne ok by blast
qed

text \<open>A successful call for the task kind \<open>fuzz\<close> leaves no record under its key.\<close>

theorem run_command_fuzz_no_lease_counterexample:
  "fst (run_command test_config (mock_handlers Returned) ''fuzz'' ''libFuzzer'' ''asan_job''
     empty_world) = Inr ()
   \<and> store (snd (run_command test_config (mock_handlers Returned) ''fuzz'' ''libFuzzer''
        ''asan_job'' empty_world)) (''fuzz'' @ '' '' @ ''libFuzzer'' @ '' '' @ ''asan_job'') = None"
  by (simp add: run_command_exempt [where res = Returned and elapsed = 0] fixtures)

subsection \<open>A handler that raises\<close>







section \<open>The engine registry\<close>

lemma get_unregistered: "ENGINES st name = None \<Longrightarrow> get name st = (Inr PyNone, st)"
  by (simp add: get_def dict_get_def)

lemma get_registered_class:
  "ENGINES st name = Some (PyClass c) \<Longrightarrow>
     get name st = (Inr (PyInstance c (next_object st)), st\<lparr>next_object := Suc (next_object st)\<rparr>)"
  by (simp add: get_def dict_get_def call_def)

lemma register_new:
  "register name engine_class st = Inr st' \<longleftrightarrow>
     ENGINES st name = None \<and> st' = st\<lparr>ENGINES := (ENGINES st)(name \<mapsto> engine_class)\<rparr>"
  by (auto simp: register_def)

text \<open>
  C7: \<open>register(name, engine_class)\<close> raises \<open>ValueError\<close> whenever the name is
  present in the registry, and a name is present once \<open>register\<close> has returned for it,
  so registering a name twice fails; \<open>get(name)\<close> on an unregistered name returns
  \<open>None\<close> and raises nothing; \<open>get(name)\<close> on a name registered with a class returns
  an instance of that class whose identity no object had before, so two calls in a row
  return different instances, and the registry is left as it was.
\<close>

theorem register_get:
  "(ENGINES st name \<noteq> None \<longrightarrow> register name engine_class st = Inl ValueError)
   \<and> (ENGINES st name = None \<longrightarrow> get name st = (Inr PyNone, st))
   \<and> (ENGINES st name = Some (PyClass c) \<longrightarrow>
        fst (get name st) = Inr (PyInstance c (next_object st))
      \<and> next_object (snd (get name st)) = Suc (next_object st)
      \<and> ENGINES (snd (get name st)) = ENGINES st
      \<and> fst (get name (snd (get name st))) = Inr (PyInstance c (Suc (next_object st)))
      \<and> fst (get name (snd (get name st))) \<noteq> fst (get name st))
   \<and> (ENGINES st name = None \<longrightarrow>
        register name engine_class st
          = Inr (st\<lparr>ENGINES := (ENGINES st)(name \<mapsto> engine_class)\<rparr>))
   \<and> (register name engine_class st = Inr st' \<longrightarrow>
        ENGINES st' name = Some engine_class
      \<and> (\<forall>name'. name' \<noteq> name \<longrightarrow> ENGINES st' name' = ENGINES st name')
      \<and> next_object st' = next_object st
      \<and> register name other st' = Inl ValueError
      \<and> (engine_class = PyClass c \<longrightarrow>
            fst (get name st') = Inr (PyInstance c (next_object st))
          \<and> fst (get name (snd (get name st'))) = Inr (PyInstance c (Suc (next_object st)))))"
proof -
  have registered:
    "ENGINES st' name = Some engine_class
      \<and> (\<forall>name'. name' \<noteq> name \<longrightarrow> ENGINES st' name' = ENGINES st name')
      \<and> next_object st' = next_object st
      \<and> register name other st' = Inl ValueError
      \<and> (engine_class = PyClass c \<longrightarrow>
            fst (get name st') = Inr (PyInstance c (next_object st))
          \<and> fst (get name (snd (get name st'))) = Inr (PyInstance c (Suc (next_object st))))"
    if "register name engine_class st = Inr st'"
  proof -
    from that have st': "st' = st\<lparr>ENGINES := (ENGINES st)(name \<mapsto> engine_class)\<rparr>"
      by (simp add: register_new)
    show ?thesis
      by (simp add: st' register_def get_registered_class)
  qed
  show ?thesis
    using registered by (simp add: register_def get_unregistered get_registered_class)
qed

theorem register_get_witness:
  "ENGINES fresh_interp ''libFuzzer'' = None
   \<and> get ''libFuzzer'' fresh_interp = (Inr PyNone, fresh_interp)
   \<and> register ''libFuzzer'' (PyClass ''LibFuzzerEngine'') fresh_interp = Inr libfuzzer_registered
   \<and> ENGINES libfuzzer_registered ''libFuzzer'' \<noteq> None
   \<and> register ''libFuzzer'' (PyClass ''Other'') libfuzzer_registered = Inl ValueError
   \<and> ENGINES libfuzzer_registered ''afl'' = None
   \<and> get ''afl'' libfuzzer_registered = (Inr PyNone, libfuzzer_registered)
   \<and> ENGINES libfuzzer_registered ''libFuzzer'' = Some (PyClass ''LibFuzzerEngine'')
   \<and> fst (get ''libFuzzer'' libfuzzer_registered) = Inr (PyInstance ''LibFuzzerEngine'' 0)
   \<and> fst (get ''libFuzzer'' (snd (get ''libFuzzer'' libfuzzer_registered)))
        = Inr (PyInstance ''LibFuzzerEngine'' 1)"
  using register_get
      [of fresh_interp "''libFuzzer''" "PyClass ''LibFuzzerEngine''" "''LibFuzzerEngine''"
          libfuzzer_registered "PyClass ''Other''"]
    register_get [of libfuzzer_registered "''afl''"]
  unfolding fresh_interp_def libfuzzer_registered_def
  by simp

section \<open>The rollout policy\<close>

text \<open>
  The comparison against the double nearest to 0.2 (to 0.05) decides, for every draw the
  random source can produce, exactly as the comparison against one fifth (one twentieth)
  does: both are comparisons of natural numbers once the denominators are cleared.
\<close>

lemma random_below_fuzz_nat:
  "random draw < TRIAL_PROBABILITY_FUZZ \<longleftrightarrow> 4 * draw < 7205759403792794"
proof -
  have "random draw < TRIAL_PROBABILITY_FUZZ
        \<longleftrightarrow> (of_nat (4 * draw) :: rat) < of_nat 7205759403792794"
    unfolding random_def TRIAL_PROBABILITY_FUZZ_def by (simp add: field_simps)
  then show ?thesis by (simp only: of_nat_less_iff)
qed

lemma random_below_others_nat:
  "random draw < TRIAL_PROBABILITY_OTHERS \<longleftrightarrow> 16 * draw < 7205759403792794"
proof -
  have "random draw < TRIAL_PROBABILITY_OTHERS
        \<longleftrightarrow> (of_nat (16 * draw) :: rat) < of_nat 7205759403792794"
    unfolding random_def TRIAL_PROBABILITY_OTHERS_def by (simp add: field_simps)
  then show ?thesis by (simp only: of_nat_less_iff)
qed

lemma random_below_fifth_nat: "random draw < 1 / 5 \<longleftrightarrow> 5 * draw < 9007199254740992"
proof -
  have "random draw < 1 / 5 \<longleftrightarrow> (of_nat (5 * draw) :: rat) < of_nat 9007199254740992"
    unfolding random_def by (simp add: field_simps)
  then show ?thesis by (simp only: of_nat_less_iff)
qed

lemma random_below_twentieth_nat: "random draw < 1 / 20 \<longleftrightarrow> 20 * draw < 9007199254740992"
proof -
  have "random draw < 1 / 20 \<longleftrightarrow> (of_nat (20 * draw) :: rat) < of_nat 9007199254740992"
    unfolding random_def by (simp add: field_simps)
  then show ?thesis by (simp only: of_nat_less_iff)
qed

lemma random_below_fuzz: "random draw < TRIAL_PROBABILITY_FUZZ \<longleftrightarrow> random draw < 1 / 5"
  unfolding random_below_fuzz_nat random_below_fifth_nat by arith

lemma random_below_others: "random draw < TRIAL_PROBABILITY_OTHERS \<longleftrightarrow> random draw < 1 / 20"
  unfolding random_below_others_nat random_below_twentieth_nat by arith

lemma random_range: "0 \<le> random draw \<and> (draw < 2 ^ 53 \<longrightarrow> random draw < 1)"
proof -
  have "(of_nat draw :: rat) < of_nat (2 ^ 53)" if "draw < 2 ^ 53"
    using that by (simp only: of_nat_less_iff)
  then show ?thesis by (simp add: random_def)
qed

text \<open>
  C8: with \<open>USE_NEW_ENGINE_IMPL\<close> set to true \<open>do_trial\<close> returns true, and set to
  false it returns false, whatever is drawn; with the override unset, the draw being the
  number \<open>u = random draw\<close> of the interval from 0 to 1, \<open>do_trial\<close> returns true
  exactly when \<open>u < 0.2\<close> if \<open>TASK_NAME\<close> is \<open>fuzz\<close>, and exactly when \<open>u < 0.05\<close> for
  any other task kind.
\<close>

theorem do_trial_policy:
  "(get_value ''USE_NEW_ENGINE_IMPL'' = PyBool True \<longrightarrow> do_trial get_value draw)
   \<and> (get_value ''USE_NEW_ENGINE_IMPL'' = PyBool False \<longrightarrow> \<not> do_trial get_value draw)
   \<and> (get_value ''USE_NEW_ENGINE_IMPL'' = PyNone \<longrightarrow>
        get_value ''TASK_NAME'' = PyStr ''fuzz'' \<longrightarrow>
        (do_trial get_value draw \<longleftrightarrow> random draw < 1 / 5))
   \<and> (get_value ''USE_NEW_ENGINE_IMPL'' = PyNone \<longrightarrow>
        get_value ''TASK_NAME'' \<noteq> PyStr ''fuzz'' \<longrightarrow>
        (do_trial get_value draw \<longleftrightarrow> random draw < 1 / 20))
   \<and> 0 \<le> random draw
   \<and> (draw < 2 ^ 53 \<longrightarrow> random draw < 1)"
  using random_range [of draw]
  by (simp add: do_trial_def random_below_fuzz random_below_others)

theorem do_trial_policy_witness:
  "settings [(''USE_NEW_ENGINE_IMPL'', PyBool True)] ''USE_NEW_ENGINE_IMPL'' = PyBool True
   \<and> do_trial (settings [(''USE_NEW_ENGINE_IMPL'', PyBool True)]) 9007199254740991
   \<and> settings [(''USE_NEW_ENGINE_IMPL'', PyBool False)] ''USE_NEW_ENGINE_IMPL'' = PyBool False
   \<and> \<not> do_trial (settings [(''USE_NEW_ENGINE_IMPL'', PyBool False)]) 0
   \<and> settings [(''TASK_NAME'', PyStr ''fuzz'')] ''USE_NEW_ENGINE_IMPL'' = PyNone
   \<and> settings [(''TASK_NAME'', PyStr ''fuzz'')] ''TASK_NAME'' = PyStr ''fuzz''
   \<and> do_trial (settings [(''TASK_NAME'', PyStr ''fuzz'')]) 1801439850948198
   \<and> \<not> do_trial (settings [(''TASK_NAME'', PyStr ''fuzz'')]) 1801439850948199
   \<and> settings [(''TASK_NAME'', PyStr ''progression'')] ''USE_NEW_ENGINE_IMPL'' = PyNone
   \<and> settings [(''TASK_NAME'', PyStr ''progression'')] ''TASK_NAME'' \<noteq> PyStr ''fuzz''
   \<and> do_trial (settings [(''TASK_NAME'', PyStr ''progression'')]) 450359962737049
   \<and> \<not> do_trial (settings [(''TASK_NAME'', PyStr ''progression'')]) 450359962737050
   \<and> (1801439850948198 :: nat) < 2 ^ 53
   \<and> random 1801439850948198 < 1"
  using do_trial_policy [of "settings [(''USE_NEW_ENGINE_IMPL'', PyBool True)]" 9007199254740991]
    do_trial_policy [of "settings [(''USE_NEW_ENGINE_IMPL'', PyBool False)]" 0]
    do_trial_policy [of "settings [(''TASK_NAME'', PyStr ''fuzz'')]" 1801439850948198]
    do_trial_policy [of "settings [(''TASK_NAME'', PyStr ''fuzz'')]" 1801439850948199]
    do_trial_policy [of "settings [(''TASK_NAME'', PyStr ''progression'')]" 450359962737049]
    do_trial_policy [of "settings [(''TASK_NAME'', PyStr ''progression'')]" 450359962737050]
  by (simp add: settings_def random_def)

text \<open>
  C9: an override that is falsy but is not the boolean \<open>False\<close> does not make
  \<open>do_trial\<close> return false: the result is that of the draw against the probability of
  the task kind, and for the overrides \<open>0\<close>, the empty string and \<open>None\<close> there is a
  draw on which \<open>do_trial\<close> returns true.
\<close>

theorem do_trial_falsy_override:
  "(\<not> truthy (get_value ''USE_NEW_ENGINE_IMPL'') \<longrightarrow>
      get_value ''USE_NEW_ENGINE_IMPL'' \<noteq> PyBool False \<longrightarrow>
      (do_trial get_value draw \<longleftrightarrow>
         random draw < (if get_value ''TASK_NAME'' = PyStr ''fuzz'' then TRIAL_PROBABILITY_FUZZ
                        else TRIAL_PROBABILITY_OTHERS)))
   \<and> \<not> truthy (PyInt 0) \<and> PyInt 0 \<noteq> PyBool False
   \<and> do_trial (settings [(''USE_NEW_ENGINE_IMPL'', PyInt 0)]) 0
   \<and> \<not> truthy (PyStr []) \<and> PyStr [] \<noteq> PyBool False
   \<and> do_trial (settings [(''USE_NEW_ENGINE_IMPL'', PyStr [])]) 0
   \<and> \<not> truthy PyNone \<and> PyNone \<noteq> PyBool False
   \<and> do_trial (settings [(''USE_NEW_ENGINE_IMPL'', PyNone)]) 0"
  by (simp add: do_trial_def settings_def random_def TRIAL_PROBABILITY_OTHERS_def)

theorem do_trial_falsy_override_witness:
  "\<not> truthy (settings [(''USE_NEW_ENGINE_IMPL'', PyInt 0), (''TASK_NAME'', PyStr ''fuzz'')]
        ''USE_NEW_ENGINE_IMPL'')
   \<and> settings [(''USE_NEW_ENGINE_IMPL'', PyInt 0), (''TASK_NAME'', PyStr ''fuzz'')]
        ''USE_NEW_ENGINE_IMPL'' \<noteq> PyBool False
   \<and> random 1000 < TRIAL_PROBABILITY_FUZZ
   \<and> do_trial (settings [(''USE_NEW_ENGINE_IMPL'', PyInt 0), (''TASK_NAME'', PyStr ''fuzz'')])
        1000"
  using do_trial_falsy_override
    [of "settings [(''USE_NEW_ENGINE_IMPL'', PyInt 0), (''TASK_NAME'', PyStr ''fuzz'')]" 1000]
  by (simp add: settings_def random_def TRIAL_PROBABILITY_FUZZ_def)

section \<open>Signed uploads: \<open>prepare_upload\<close>\<close>

lemma timedelta_in_range:
  assumes "0 \<le> now" "now < DATETIME_END"
      and "0 \<le> now + expiry * 1000000" "now + expiry * 1000000 < DATETIME_END"
  shows "timedelta expiry = Inr (expiry * 1000000)"
proof -
  have "- 315537897600 < expiry" "expiry < 315537897600"
    using assms unfolding DATETIME_END_def by linarith+
  then have "\<bar>expiry div 86400\<bar> \<le> 999999999" by linarith
  then show ?thesis by (simp add: timedelta_def)
qed

lemma prepare_upload_returned:
  assumes "prepare_upload lib get_value now bucket_name path expiry = Inr u"
  shows "bucket u = bucket_name \<and> key u = path
       \<and> datetime_add now (expiry * 1000000) = Inr (now + expiry * 1000000)
       \<and> (\<exists>document.
             json_dumps lib (policy_document lib (now + expiry * 1000000) bucket_name path)
               = Inr document
           \<and> b64encode lib document = Inr (policy u))"
  using assms
  by (auto simp: prepare_upload_def timedelta_def datetime_add_def Let_def
      split: if_splits sum.splits)

lemma prepare_upload_out_of_range:
  assumes "now + expiry * 1000000 < 0 \<or> DATETIME_END \<le> now + expiry * 1000000"
  shows "prepare_upload lib get_value now bucket_name path expiry = Inl OverflowError"
  using assms
  by (auto simp: prepare_upload_def timedelta_def datetime_add_def split: sum.splits)

text \<open>
  When the expiration time is a \<open>datetime\<close> and every library call the branch makes
  succeeds, \<open>prepare_upload\<close> returns.
\<close>

lemma prepare_upload_returns:
  assumes "0 \<le> now" "now < DATETIME_END"
      and "0 \<le> now + expiry * 1000000" "now + expiry * 1000000 < DATETIME_END"
      and "json_dumps lib (policy_document lib (now + expiry * 1000000) bucket_name path)
             = Inr document"
      and "b64encode lib document = Inr encoded"
      and "truthy (get_value ''LOCAL_GCS_SERVER_HOST'')
           \<or> (\<exists>signed encoded_signature account.
                 sign_data lib encoded = Inr signed
               \<and> b64encode lib signed = Inr encoded_signature
               \<and> service_account_email lib = Inr account)"
  shows "\<exists>u. prepare_upload lib get_value now bucket_name path expiry = Inr u"
proof -
  have td: "timedelta expiry = Inr (expiry * 1000000)"
    using assms(1-4) by (rule timedelta_in_range)
  have add: "datetime_add now (expiry * 1000000) = Inr (now + expiry * 1000000)"
    using assms(3,4) by (simp add: datetime_add_def)
  from assms(7) show ?thesis
    by (auto simp: prepare_upload_def td add assms(5,6) Let_def)
qed

text \<open>
  When an encoder refuses its input (\<open>json.dumps\<close> a byte string that is not text,
  \<open>b64encode\<close> a text that is not bytes), the call ends with that exception.
\<close>

lemma prepare_upload_encoder_raises:
  assumes "timedelta expiry = Inr delta" and "datetime_add now delta = Inr expiration_time"
      and "json_dumps lib (policy_document lib expiration_time bucket_name path) = Inl e
           \<or> (\<exists>document.
                 json_dumps lib (policy_document lib expiration_time bucket_name path)
                   = Inr document
               \<and> b64encode lib document = Inl e)"
  shows "prepare_upload lib get_value now bucket_name path expiry = Inl e"
  using assms by (auto simp: prepare_upload_def)

text \<open>
  C10, as the code has it: whenever \<open>prepare_upload\<close> returns, the \<open>GcsUpload\<close> has
  the bucket name as its bucket and the path as its key, and its policy is the encoding
  of the document whose conditions fix that key and that bucket and give the
  content-length-range from 0 to 16106127360 bytes (15 GB); it does not return for
  every expiry: when the expiration time is not a \<open>datetime\<close> it raises
  \<open>OverflowError\<close>.
\<close>

theorem prepare_upload_result:
  "(\<forall>u. prepare_upload lib get_value now bucket_name path expiry = Inr u \<longrightarrow>
        bucket u = bucket_name \<and> key u = path
      \<and> (\<exists>document.
            json_dumps lib
              (JObject
                [(''expiration'', JString (isoformat lib (now + expiry * 1000000) @ ''Z'')),
                 (''conditions'',
                    JArray
                      [JObject [(''key'', JString path)],
                       JObject [(''bucket'', JString bucket_name)],
                       JArray [JString ''content-length-range'', JInt 0, JInt 16106127360],
                       JArray [JString ''starts-with'', JString ''$x-goog-meta-filename'',
                               JString []]])])
              = Inr document
          \<and> b64encode lib document = Inr (policy u)))
   \<and> (now + expiry * 1000000 < 0 \<or> DATETIME_END \<le> now + expiry * 1000000 \<longrightarrow>
        prepare_upload lib get_value now bucket_name path expiry = Inl OverflowError)"
proof -
  have fields: "bucket u = bucket_name \<and> key u = path
      \<and> (\<exists>document.
            json_dumps lib
              (JObject
                [(''expiration'', JString (isoformat lib (now + expiry * 1000000) @ ''Z'')),
                 (''conditions'',
                    JArray
                      [JObject [(''key'', JString path)],
                       JObject [(''bucket'', JString bucket_name)],
                       JArray [JString ''content-length-range'', JInt 0, JInt 16106127360],
                       JArray [JString ''starts-with'', JString ''$x-goog-meta-filename'',
                               JString []]])])
              = Inr document
          \<and> b64encode lib document = Inr (policy u))"
    if "prepare_upload lib get_value now bucket_name path expiry = Inr u" for u
    using prepare_upload_returned [OF that]
    by (simp add: policy_document_def MAX_UPLOAD_SIZE_def)
  show ?thesis
    using fields prepare_upload_out_of_range [of now expiry lib get_value bucket_name path]
    by blast
qed

theorem prepare_upload_result_witness:
  "prepare_upload stub_library local_settings SEPTEMBER_2019 ''bucket'' ''path''
       DEFAULT_URL_VALID_SECONDS
     = Inr \<lparr>url = PyStr ''http://localhost:9008'', bucket = ''bucket'', key = ''path'',
            google_access_id = ''service_account'',
            policy = ''b64:{\"expiration\": \"63702894600000000Z\", \"conditions\": [{\"key\": \"path\"}, {\"bucket\": \"bucket\"}, [\"content-length-range\", 0, 16106127360], [\"starts-with\", \"$x-goog-meta-filename\", \"\"]]}'',
            signature = ''SIGNATURE''\<rparr>
   \<and> prepare_upload stub_library cloud_settings SEPTEMBER_2019 ''blobs'' ''a/b.zip'' 60
     = Inr \<lparr>url = PyStr ''https://storage.googleapis.com/blobs'', bucket = ''blobs'',
            key = ''a/b.zip'', google_access_id = ''bot@example.com'',
            policy = ''b64:{\"expiration\": \"63702892860000000Z\", \"conditions\": [{\"key\": \"a/b.zip\"}, {\"bucket\": \"blobs\"}, [\"content-length-range\", 0, 16106127360], [\"starts-with\", \"$x-goog-meta-filename\", \"\"]]}'',
            signature = ''b64:sig''\<rparr>
   \<and> json_dumps stub_library
        (JObject
          [(''expiration'',
              JString (isoformat stub_library
                (SEPTEMBER_2019 + DEFAULT_URL_VALID_SECONDS * 1000000) @ ''Z'')),
           (''conditions'',
              JArray
                [JObject [(''key'', JString ''path'')],
                 JObject [(''bucket'', JString ''bucket'')],
                 JArray [JString ''content-length-range'', JInt 0, JInt 16106127360],
                 JArray [JString ''starts-with'', JString ''$x-goog-meta-filename'',
                         JString []]])])
      = Inr ''{\"expiration\": \"63702894600000000Z\", \"conditions\": [{\"key\": \"path\"}, {\"bucket\": \"bucket\"}, [\"content-length-range\", 0, 16106127360], [\"starts-with\", \"$x-goog-meta-filename\", \"\"]]}''
   \<and> SEPTEMBER_2019 + (- 1000000000000) * 1000000 < 0
   \<and> prepare_upload stub_library local_settings SEPTEMBER_2019 ''bucket'' ''path''
        (- 1000000000000) = Inl OverflowError"
proof -
  have local: "prepare_upload stub_library local_settings SEPTEMBER_2019 ''bucket'' ''path''
       DEFAULT_URL_VALID_SECONDS
     = Inr \<lparr>url = PyStr ''http://localhost:9008'', bucket = ''bucket'', key = ''path'',
            google_access_id = ''service_account'',
            policy = ''b64:{\"expiration\": \"63702894600000000Z\", \"conditions\": [{\"key\": \"path\"}, {\"bucket\": \"bucket\"}, [\"content-length-range\", 0, 16106127360], [\"starts-with\", \"$x-goog-meta-filename\", \"\"]]}'',
            signature = ''SIGNATURE''\<rparr>"
    by (simp add: prepare_upload_def timedelta_def datetime_add_def DATETIME_END_def
        SEPTEMBER_2019_def DEFAULT_URL_VALID_SECONDS_def local_settings_def settings_def
        stub_library_def policy_document_def MAX_UPLOAD_SIZE_def quoted_def ascii_def
        digits.simps)
  have cloud: "prepare_upload stub_library cloud_settings SEPTEMBER_2019 ''blobs'' ''a/b.zip'' 60
     = Inr \<lparr>url = PyStr ''https://storage.googleapis.com/blobs'', bucket = ''blobs'',
            key = ''a/b.zip'', google_access_id = ''bot@example.com'',
            policy = ''b64:{\"expiration\": \"63702892860000000Z\", \"conditions\": [{\"key\": \"a/b.zip\"}, {\"bucket\": \"blobs\"}, [\"content-length-range\", 0, 16106127360], [\"starts-with\", \"$x-goog-meta-filename\", \"\"]]}'',
            signature = ''b64:sig''\<rparr>"
    by (simp add: prepare_upload_def timedelta_def datetime_add_def DATETIME_END_def
        SEPTEMBER_2019_def cloud_settings_def settings_def sign_data_def STORAGE_URL_def
        stub_library_def policy_document_def MAX_UPLOAD_SIZE_def quoted_def ascii_def
        digits.simps)
  have early: "SEPTEMBER_2019 + (- 1000000000000) * 1000000 < 0"
    by (simp add: SEPTEMBER_2019_def)
  from prepare_upload_result
    [of stub_library local_settings SEPTEMBER_2019 "''bucket''" "''path''"
        DEFAULT_URL_VALID_SECONDS] local
  have doc: "json_dumps stub_library
        (JObject
          [(''expiration'',
              JString (isoformat stub_library
                (SEPTEMBER_2019 + DEFAULT_URL_VALID_SECONDS * 1000000) @ ''Z'')),
           (''conditions'',
              JArray
                [JObject [(''key'', JString ''path'')],
                 JObject [(''bucket'', JString ''bucket'')],
                 JArray [JString ''content-length-range'', JInt 0, JInt 16106127360],
                 JArray [JString ''starts-with'', JString ''$x-goog-meta-filename'',
                         JString []]])])
      = Inr ''{\"expiration\": \"63702894600000000Z\", \"conditions\": [{\"key\": \"path\"}, {\"bucket\": \"bucket\"}, [\"content-length-range\", 0, 16106127360], [\"starts-with\", \"$x-goog-meta-filename\", \"\"]]}''"
    by (auto simp: stub_library_def)
  from prepare_upload_result
    [of stub_library local_settings SEPTEMBER_2019 "''bucket''" "''path''"
        "- 1000000000000"] early
  have "prepare_upload stub_library local_settings SEPTEMBER_2019 ''bucket'' ''path''
        (- 1000000000000) = Inl OverflowError"
    by blast
  with local cloud doc early show ?thesis by blast
qed

text \<open>
  With an expiry of \<open>10 ^ 12\<close> seconds the expiration time lies after the year 9999:
  the call raises \<open>OverflowError\<close> and returns nothing.
\<close>

theorem prepare_upload_overflow_counterexample:
  "prepare_upload stub_library local_settings SEPTEMBER_2019 ''bucket'' ''path'' 1000000000000
     = Inl OverflowError"
  by (simp add: prepare_upload_def timedelta_def datetime_add_def DATETIME_END_def
      SEPTEMBER_2019_def)

end
